theory Spec2Isabelle
  imports Complex_Main "HOL-Library.Sublist"
begin

section \<open>Payment transaction lifecycle: the transaction document\<close>

text \<open>
  The development follows the transaction model (the Mongoose schema with its
  pre-save hook and the instance method \<open>addStatusUpdate\<close>), the payment
  controller (\<open>verifyPayment\<close>, \<open>refundPayment\<close>, the gateway retry wrappers),
  the webhook router and the monitoring service (\<open>reconcileTransaction\<close>,
  \<open>cleanupStaleTransactions\<close>, \<open>mapRazorpayStatus\<close>).

  Conventions of the embedding.
  \<^item> Amounts are JavaScript numbers; they are modelled as exact rationals.
  \<^item> Points in time are milliseconds since the epoch, as integers; every operation
    receives the clock reading \<open>now\<close> as an argument.
  \<^item> A thrown value is a record of an optional message, an optional status code and
    the flag \<open>isOperational\<close> that \<open>AppError\<close> sets; a function that may throw returns
    a sum, with \<open>Inl\<close> for the thrown value.
  \<^item> The digest \<open>crypto.createHmac('sha256', key).update(msg).digest('hex')\<close> is a
    parameter \<open>hmac key msg\<close> of the operations that compute it.
  \<^item> Of the schema, the fields that the modelled operations read or write are kept;
    the payment-method details, customer, risk, settlement and audit fields are left out.
  \<^item> The collections are lists; the position of a document is its \<open>_id\<close>, so a
    reference to a document that does not exist is an index beyond the list.
  \<^item> Persisting a document runs the pre-save hook written in the schema file and
    then stores the document. The validators of the object mapper are not part of the
    model, except that the twelve enumerated statuses are the only storable ones.
\<close>

datatype status =
    Initiated | Pending | Processing | Authorized
  | Captured | Success | Failed | Cancelled
  | Expired | Disputed | Refunded | PartiallyRefunded

datatype metadata =
    HookMeta "status option"     \<comment> \<open>the hook's \<open>{ previousStatus }\<close>\<close>
  | CallerMeta "string list"     \<comment> \<open>the keys of the object passed by the caller\<close>

record history_entry =
  h_status :: status
  h_timestamp :: int
  h_reason :: "string option"
  h_metadata :: metadata

record fee_rec =
  gatewayFee :: rat
  serviceTax :: rat
  totalFee :: rat

record refund_rec =
  refundId :: string
  r_amount :: rat
  r_reason :: string
  r_initiatedAt :: int
  r_status :: string

text \<open>
  The fields of the schema that the operations below read or write. \<open>statusModified\<close>
  is the object mapper's dirty flag of the path \<open>status\<close> (what \<open>isModified('status')\<close>
  answers): an assignment of a different value raises it, a completed save clears it.
\<close>

record transaction =
  transactionId :: string
  orderId :: "nat option"
  gatewayOrderId :: "string option"
  gatewayPaymentId :: "string option"
  amount :: rat
  status :: status
  previousStatus :: "status option"
  statusHistory :: "history_entry list"
  authorizedAt :: "int option"
  capturedAt :: "int option"
  failedAt :: "int option"
  refundedAt :: "int option"
  fees :: fee_rec
  netAmount :: rat
  refund :: "refund_rec option"
  createdAt :: int
  statusModified :: bool

datatype order_status =
  OPending | OConfirmed | OProcessing | OShipped | ODelivered | OCancelled

record order =
  o_paymentId :: "string option"
  o_total :: rat
  o_status :: order_status
  o_isPaid :: bool
  o_paidAt :: "int option"
  o_notes :: "string option"

record db =
  txs :: "transaction list"
  orders :: "order list"

record js_error =
  message :: "string option"
  statusCode :: "int option"
  isOperational :: bool

definition AppError :: "string \<Rightarrow> int \<Rightarrow> js_error" where
  "AppError msg code = \<lparr>message = Some msg, statusCode = Some code, isOperational = True\<rparr>"

definition TypeError :: "string \<Rightarrow> js_error" where
  "TypeError msg = \<lparr>message = Some msg, statusCode = None, isOperational = False\<rparr>"


subsection \<open>The pre-save hook and \<open>addStatusUpdate\<close>\<close>

text \<open>
  \<open>transactionSchema.pre('save')\<close>. The expression \<open>this.original?.status || this.status\<close>
  reads a property \<open>original\<close> that nothing assigns, so it yields \<open>this.status\<close>.
  The guard \<open>this.amount && this.fees\<close> is false exactly when the amount is zero
  (\<open>fees\<close> is a nested path and always present).
\<close>

definition stampTiming :: "int \<Rightarrow> transaction \<Rightarrow> transaction" where
  "stampTiming now t =
     (case status t of
        Authorized \<Rightarrow> t\<lparr>authorizedAt := Some now\<rparr>
      | Captured \<Rightarrow> t\<lparr>capturedAt := Some now\<rparr>
      | Success \<Rightarrow> t\<lparr>capturedAt := Some now\<rparr>
      | Failed \<Rightarrow> t\<lparr>failedAt := Some now\<rparr>
      | Refunded \<Rightarrow> t\<lparr>refundedAt := Some now\<rparr>
      | PartiallyRefunded \<Rightarrow> t\<lparr>refundedAt := Some now\<rparr>
      | _ \<Rightarrow> t)"

definition preSave :: "int \<Rightarrow> transaction \<Rightarrow> transaction" where
  "preSave now t =
     (let t1 =
        (if statusModified t \<and> Some (status t) \<noteq> previousStatus t
         then (stampTiming now
                 (t\<lparr>statusHistory := statusHistory t @
                      [\<lparr>h_status = status t, h_timestamp = now,
                        h_reason = Some ''Status changed'',
                        h_metadata = HookMeta (previousStatus t)\<rparr>]\<rparr>))
                \<lparr>previousStatus := Some (status t)\<rparr>
         else t)
      in if amount t1 \<noteq> 0
         then t1\<lparr>netAmount := amount t1 - totalFee (fees t1)\<rparr>
         else t1)"

text \<open>\<open>doc.save()\<close> for the document at position \<open>i\<close>: hook, store, clear the dirty flag.
  The result is the document as it is in memory afterwards, and the new collection.\<close>

definition save :: "int \<Rightarrow> nat \<Rightarrow> transaction \<Rightarrow> db \<Rightarrow> transaction \<times> db" where
  "save now i t d =
     (let t' = (preSave now t)\<lparr>statusModified := False\<rparr>
      in (t', d\<lparr>txs := (txs d)[i := t']\<rparr>))"

text \<open>\<open>transactionSchema.methods.addStatusUpdate\<close>: no condition on the current status.\<close>

definition setStatus :: "status \<Rightarrow> transaction \<Rightarrow> transaction" where
  "setStatus s t = t\<lparr>status := s, statusModified := (statusModified t \<or> s \<noteq> status t)\<rparr>"

definition addStatusUpdate ::
  "int \<Rightarrow> nat \<Rightarrow> status \<Rightarrow> string option \<Rightarrow> metadata \<Rightarrow> transaction \<Rightarrow> db \<Rightarrow> transaction \<times> db" where
  "addStatusUpdate now i s reason meta t d =
     save now i
       ((setStatus s (t\<lparr>previousStatus := Some (status t)\<rparr>))
          \<lparr>statusHistory := statusHistory t @
             [\<lparr>h_status = s, h_timestamp = now, h_reason = reason, h_metadata = meta\<rparr>]\<rparr>) d"

text \<open>Reading a stored document: a freshly loaded document has no modified path.\<close>

definition load :: "db \<Rightarrow> nat \<Rightarrow> transaction" where
  "load d i = (txs d ! i)\<lparr>statusModified := False\<rparr>"



text \<open>\<open>Order.findById\<close>.\<close>

definition findOrderById :: "db \<Rightarrow> nat \<Rightarrow> order option" where
  "findOrderById d j = (if j < length (orders d) then Some (orders d ! j) else None)"


section \<open>The gateway adapter: bounded retry\<close>














section \<open>The verification service\<close>

text \<open>The gateway's payment entity, as far as the operations read it. A money field
  that is absent is \<open>None\<close>; \<open>x || 0\<close> and the truth value of \<open>x\<close> are written out.\<close>

record payment =
  p_id :: string
  p_order_id :: "string option"
  p_amount :: rat
  p_status :: string
  p_fee :: "rat option"
  p_tax :: "rat option"















section \<open>The webhook router\<close>

text \<open>
  The route is mounted behind the JSON body parser, so the handler sees the parsed
  body; \<open>rawBody\<close> is the text the gateway sent, which the handler has no access to.
  Under \<open>payload\<close> the keys \<open>payment\<close>, \<open>order\<close> and \<open>refund\<close> hold an object that
  may have an \<open>entity\<close>: \<open>None\<close> is an absent key, \<open>Some None\<close> an object without
  entity. The entity itself is left abstract.
\<close>

record 'e payload =
  pl_payment :: "'e option option"
  pl_order :: "'e option option"
  pl_refund :: "'e option option"

record 'e webhook_body =
  event :: "string option"
  payload :: "'e payload option"

record 'e webhook_request =
  signatureHeader :: "string option"
  rawBody :: string
  body :: "'e webhook_body"

datatype response_body = ErrorBody string | StatusBody string "string option"

record http_response =
  http_status :: nat
  http_body :: response_body

text \<open>\<open>const { entity } = payload.payment || payload.order || payload.refund || {}\<close>.\<close>

definition entityOf :: "'e payload \<Rightarrow> 'e option" where
  "entityOf pl =
     (case pl_payment pl of
        Some w \<Rightarrow> w
      | None \<Rightarrow> (case pl_order pl of
                   Some w \<Rightarrow> w
                 | None \<Rightarrow> (case pl_refund pl of Some w \<Rightarrow> w | None \<Rightarrow> None)))"

definition handledEvents :: "string list" where
  "handledEvents =
     [''payment.authorized'', ''payment.captured'', ''payment.failed'', ''order.paid'',
      ''refund.created'', ''refund.processed'', ''refund.failed'',
      ''payment.dispute.created'', ''settlement.processed'']"

text \<open>
  \<open>processWebhookEvent\<close>. The nine handlers are the parameter \<open>handle\<close>: given the
  event name, the entity and the store, a handler ends normally or throws, and leaves
  a store. An event that is not in the switch is logged and ignored.
\<close>

definition processWebhookEvent ::
  "(string \<Rightarrow> 'e \<Rightarrow> 's \<Rightarrow> js_error option \<times> 's) \<Rightarrow> string option \<Rightarrow> 'e payload option \<Rightarrow> 's
     \<Rightarrow> js_error option \<times> 's" where
  "processWebhookEvent handle ev pl st =
     (case pl of
        None \<Rightarrow> (Some (TypeError ''Cannot read properties of undefined (reading 'payment')''), st)
      | Some p \<Rightarrow>
          (case entityOf p of
             None \<Rightarrow> (Some (AppError ''Invalid webhook payload'' 400), st)
           | Some e \<Rightarrow>
               (case ev of
                  Some name \<Rightarrow> if name \<in> set handledEvents then handle name e st else (None, st)
                | None \<Rightarrow> (None, st))))"

text \<open>
  \<open>router.post('/razorpay')\<close>. \<open>stringify\<close> stands for \<open>JSON.stringify\<close> on the parsed
  body, \<open>secret\<close> for the environment variable holding the webhook secret.
\<close>

definition razorpayWebhook ::
  "(string \<Rightarrow> string \<Rightarrow> string) \<Rightarrow> ('e webhook_body \<Rightarrow> string) \<Rightarrow>
   (string \<Rightarrow> 'e \<Rightarrow> 's \<Rightarrow> js_error option \<times> 's) \<Rightarrow> string option \<Rightarrow> 'e webhook_request \<Rightarrow> 's
     \<Rightarrow> http_response \<times> 's" where
  "razorpayWebhook hmac stringify handle secret req st =
     (case secret of
        None \<Rightarrow> (\<lparr>http_status = 500, http_body = ErrorBody ''Webhook not configured''\<rparr>, st)
      | Some k \<Rightarrow>
          if k = []
          then (\<lparr>http_status = 500, http_body = ErrorBody ''Webhook not configured''\<rparr>, st)
          else if signatureHeader req \<noteq> Some (hmac k (stringify (body req)))
          then (\<lparr>http_status = 400, http_body = ErrorBody ''Invalid signature''\<rparr>, st)
          else
            (case processWebhookEvent handle (event (body req)) (payload (body req)) st of
               (None, st') \<Rightarrow>
                 (\<lparr>http_status = 200, http_body = StatusBody ''success'' None\<rparr>, st')
             | (Some err, st') \<Rightarrow>
                 (\<lparr>http_status = 200, http_body = StatusBody ''acknowledged'' (message err)\<rparr>,
                  st')))"



section \<open>The monitoring service\<close>









definition expireOne :: "int \<Rightarrow> nat \<times> transaction \<Rightarrow> db \<Rightarrow> db" where
  "expireOne now it d =
     (let r = addStatusUpdate now (fst it) Expired (Some ''Transaction expired due to inactivity'')
                (CallerMeta [''cleanup'', ''stale_duration'']) (snd it) d;
          d1 = snd r
      in case orderId (fst r) of
           None \<Rightarrow> d1
         | Some j \<Rightarrow>
             (case findOrderById d1 j of
                None \<Rightarrow> d1
              | Some ord \<Rightarrow>
                  if o_status ord = OPending
                  then d1\<lparr>orders := (orders d1)
                            [j := ord\<lparr>o_status := OCancelled,
                                      o_notes := Some ''Order cancelled due to payment timeout''\<rparr>]\<rparr>
                  else d1))"


section \<open>Notions used in the statements\<close>








section \<open>Concrete instances\<close>





text \<open>
  A stand-in for the keyed digest in the concrete instances: like HMAC-SHA256 on these
  inputs, it gives different digests for different messages. The general theorems
  hold for every function \<open>hmac\<close>.
\<close>

definition digestStandIn :: "string \<Rightarrow> string \<Rightarrow> string" where
  "digestStandIn key msg = key @ '':'' @ msg"













text \<open>
  Webhook requests without entity. \<open>stringifyShallow\<close> is \<open>JSON.stringify\<close> on the
  bodies used here: an optional event name and a payload that is absent or an empty
  object. \<open>noHandler\<close> is a handler that does nothing.
\<close>

definition stringifyShallow :: "unit webhook_body \<Rightarrow> string" where
  \<open>stringifyShallow b =
     (case (event b, payload b) of
        (Some n, None) \<Rightarrow> ''{"event":"'' @ n @ ''"}''
      | (Some n, Some p) \<Rightarrow> ''{"event":"'' @ n @ ''","payload":{}}''
      | (None, None) \<Rightarrow> ''{}''
      | (None, Some p) \<Rightarrow> ''{"payload":{}}'')\<close>

definition noHandler :: "string \<Rightarrow> unit \<Rightarrow> unit \<Rightarrow> js_error option \<times> unit" where
  "noHandler name e st = (None, st)"

text \<open>
  The gateway sent \<open>{ "event": "ping" }\<close>, with blanks. \<open>reqRawSigned\<close> carries the
  digest of that text; \<open>reqReserialised\<close> carries the digest of the text that
  \<open>JSON.stringify\<close> makes of the parsed body.
\<close>

definition reqRawSigned :: "unit webhook_request" where
  \<open>reqRawSigned =
     \<lparr>signatureHeader = Some (digestStandIn ''whsec'' ''{ "event": "ping" }''),
      rawBody = ''{ "event": "ping" }'',
      body = \<lparr>event = Some ''ping'', payload = None\<rparr>\<rparr>\<close>

definition reqReserialised :: "unit webhook_request" where
  \<open>reqReserialised =
     \<lparr>signatureHeader = Some (digestStandIn ''whsec'' ''{"event":"ping"}''),
      rawBody = ''{ "event": "ping" }'',
      body = \<lparr>event = Some ''ping'', payload = None\<rparr>\<rparr>\<close>

text \<open>A correctly signed event whose payload has no entity.\<close>

definition reqNoEntity :: "unit webhook_request" where
  \<open>reqNoEntity =
     \<lparr>signatureHeader =
        Some (digestStandIn ''whsec'' ''{"event":"payment.captured","payload":{}}''),
      rawBody = ''{"event":"payment.captured","payload":{}}'',
      body = \<lparr>event = Some ''payment.captured'',
               payload = Some \<lparr>pl_payment = None, pl_order = None, pl_refund = None\<rparr>\<rparr>\<rparr>\<close>





section \<open>Properties\<close>

subsection \<open>The transaction document\<close>

lemma preSave_status [simp]: "status (preSave now t) = status t"
  by (simp add: preSave_def stampTiming_def Let_def split: status.splits)

lemma preSave_orderId [simp]: "orderId (preSave now t) = orderId t"
  by (simp add: preSave_def stampTiming_def Let_def split: status.splits)

lemma preSave_amount [simp]: "amount (preSave now t) = amount t"
  by (simp add: preSave_def stampTiming_def Let_def split: status.splits)

lemma preSave_fees [simp]: "fees (preSave now t) = fees t"
  by (simp add: preSave_def stampTiming_def Let_def split: status.splits)

lemma preSave_transactionId [simp]: "transactionId (preSave now t) = transactionId t"
  by (simp add: preSave_def stampTiming_def Let_def split: status.splits)

lemma preSave_gatewayPaymentId [simp]: "gatewayPaymentId (preSave now t) = gatewayPaymentId t"
  by (simp add: preSave_def stampTiming_def Let_def split: status.splits)



lemma save_orders [simp]: "orders (snd (save now i t d)) = orders d"
  by (simp add: save_def Let_def)

lemma save_txs: "txs (snd (save now i t d)) = (txs d)[i := fst (save now i t d)]"
  by (simp add: save_def Let_def)

lemma save_fst: "fst (save now i t d) = (preSave now t)\<lparr>statusModified := False\<rparr>"
  by (simp add: save_def Let_def)

lemma asu_fst:
  "fst (addStatusUpdate now i s r m t d) =
     (preSave now ((setStatus s (t\<lparr>previousStatus := Some (status t)\<rparr>))
          \<lparr>statusHistory := statusHistory t @
             [\<lparr>h_status = s, h_timestamp = now, h_reason = r, h_metadata = m\<rparr>]\<rparr>))\<lparr>statusModified := False\<rparr>"
  by (simp add: addStatusUpdate_def save_fst)

lemma asu_txs: "txs (snd (addStatusUpdate now i s r m t d)) = (txs d)[i := fst (addStatusUpdate now i s r m t d)]"
  by (simp add: addStatusUpdate_def save_txs)

lemma asu_orders [simp]: "orders (snd (addStatusUpdate now i s r m t d)) = orders d"
  by (simp add: addStatusUpdate_def)

lemma asu_status [simp]: "status (fst (addStatusUpdate now i s r m t d)) = s"
  by (simp add: asu_fst setStatus_def)

lemma asu_orderId [simp]: "orderId (fst (addStatusUpdate now i s r m t d)) = orderId t"
  by (simp add: asu_fst setStatus_def)

lemma asu_amount [simp]: "amount (fst (addStatusUpdate now i s r m t d)) = amount t"
  by (simp add: asu_fst setStatus_def)

lemma asu_fees [simp]: "fees (fst (addStatusUpdate now i s r m t d)) = fees t"
  by (simp add: asu_fst setStatus_def)

lemma asu_transactionId [simp]: "transactionId (fst (addStatusUpdate now i s r m t d)) = transactionId t"
  by (simp add: asu_fst setStatus_def)

lemma asu_gatewayPaymentId [simp]: "gatewayPaymentId (fst (addStatusUpdate now i s r m t d)) = gatewayPaymentId t"
  by (simp add: asu_fst setStatus_def)






subsection \<open>The retry wrappers\<close>



















subsection \<open>Verification\<close>






lemma load_transactionId [simp]: "transactionId (load d i) = transactionId (txs d ! i)"
  by (simp add: load_def)

lemma load_status [simp]: "status (load d i) = status (txs d ! i)"
  by (simp add: load_def)

lemma load_amount [simp]: "amount (load d i) = amount (txs d ! i)"
  by (simp add: load_def)

lemma load_orderId [simp]: "orderId (load d i) = orderId (txs d ! i)"
  by (simp add: load_def)

lemma load_statusHistory [simp]: "statusHistory (load d i) = statusHistory (txs d ! i)"
  by (simp add: load_def)

lemma load_netAmount [simp]: "netAmount (load d i) = netAmount (txs d ! i)"
  by (simp add: load_def)

lemma load_fees [simp]: "fees (load d i) = fees (txs d ! i)"
  by (simp add: load_def)

lemma load_gatewayPaymentId [simp]: "gatewayPaymentId (load d i) = gatewayPaymentId (txs d ! i)"
  by (simp add: load_def)

lemma asu_length [simp]: "length (txs (snd (addStatusUpdate now i s r m t d))) = length (txs d)"
  by (simp add: asu_txs)






















subsection \<open>The net amount\<close>


lemma save_length [simp]: "length (txs (snd (save now i t d))) = length (txs d)"
  by (simp add: save_txs)

lemma save_fees [simp]: "fees (fst (save now i t d)) = fees t"
  by (simp add: save_fst)

lemma save_amount [simp]: "amount (fst (save now i t d)) = amount t"
  by (simp add: save_fst)












subsection \<open>The webhook route\<close>

text \<open>
  C6 (as amended). With the webhook secret configured, the route computes the HMAC of
  \<open>JSON.stringify\<close> of the parsed body; it answers 400 exactly when that digest
  differs from the signature header, and then leaves the store untouched; on a match
  it hands the event to \<open>processWebhookEvent\<close> and answers 200. Without a configured
  secret it answers 500. The raw body is not consulted: replacing it changes nothing.
\<close>

theorem webhook_digest_of_reserialised_body:
  "(secret = Some k \<and> k \<noteq> [] \<longrightarrow>
      (signatureHeader req \<noteq> Some (hmac k (stringify (body req)))
         \<longrightarrow> razorpayWebhook hmac stringify handle secret req st
               = (\<lparr>http_status = 400, http_body = ErrorBody ''Invalid signature''\<rparr>, st))
      \<and> (signatureHeader req = Some (hmac k (stringify (body req)))
         \<longrightarrow> http_status (fst (razorpayWebhook hmac stringify handle secret req st)) = 200
             \<and> snd (razorpayWebhook hmac stringify handle secret req st)
                  = snd (processWebhookEvent handle (event (body req)) (payload (body req)) st)))
   \<and> (secret = None \<or> secret = Some [] \<longrightarrow>
        razorpayWebhook hmac stringify handle secret req st
          = (\<lparr>http_status = 500, http_body = ErrorBody ''Webhook not configured''\<rparr>, st))
   \<and> razorpayWebhook hmac stringify handle secret (req\<lparr>rawBody := raw\<rparr>) st
        = razorpayWebhook hmac stringify handle secret req st"
  by (auto simp: razorpayWebhook_def split: prod.splits option.splits)

theorem webhook_digest_of_reserialised_body_witness:
  \<open>''whsec'' \<noteq> []
   \<and> signatureHeader reqReserialised = Some (digestStandIn ''whsec'' (stringifyShallow (body reqReserialised)))
   \<and> http_status (fst (razorpayWebhook digestStandIn stringifyShallow noHandler (Some ''whsec'')
                          reqReserialised ())) = 200
   \<and> signatureHeader reqRawSigned \<noteq> Some (digestStandIn ''whsec'' (stringifyShallow (body reqRawSigned)))
   \<and> razorpayWebhook digestStandIn stringifyShallow noHandler (Some ''whsec'') reqRawSigned ()
       = (\<lparr>http_status = 400, http_body = ErrorBody ''Invalid signature''\<rparr>, ())
   \<and> razorpayWebhook digestStandIn stringifyShallow noHandler None reqRawSigned ()
       = (\<lparr>http_status = 500, http_body = ErrorBody ''Webhook not configured''\<rparr>, ())\<close>
proof -
  have k: "''whsec'' \<noteq> []" by simp
  have a: \<open>signatureHeader reqReserialised
             = Some (digestStandIn ''whsec'' (stringifyShallow (body reqReserialised)))\<close>
    by (simp add: reqReserialised_def stringifyShallow_def digestStandIn_def)
  have b: \<open>signatureHeader reqRawSigned
             \<noteq> Some (digestStandIn ''whsec'' (stringifyShallow (body reqRawSigned)))\<close>
    by (simp add: reqRawSigned_def stringifyShallow_def digestStandIn_def)
  note t1 = webhook_digest_of_reserialised_body [where secret = "Some ''whsec''" and k = "''whsec''"
          and hmac = digestStandIn and stringify = stringifyShallow and handle = noHandler
          and req = reqReserialised and st = "()"]
  note t2 = webhook_digest_of_reserialised_body [where secret = "Some ''whsec''" and k = "''whsec''"
          and hmac = digestStandIn and stringify = stringifyShallow and handle = noHandler
          and req = reqRawSigned and st = "()"]
  note t3 = webhook_digest_of_reserialised_body [where secret = None
          and hmac = digestStandIn and stringify = stringifyShallow and handle = noHandler
          and req = reqRawSigned and st = "()"]
  from t1 k a have c: "http_status (fst (razorpayWebhook digestStandIn stringifyShallow noHandler
                          (Some ''whsec'') reqReserialised ())) = 200"
    by blast
  from t2 k b have d: "razorpayWebhook digestStandIn stringifyShallow noHandler (Some ''whsec'')
                          reqRawSigned ()
       = (\<lparr>http_status = 400, http_body = ErrorBody ''Invalid signature''\<rparr>, ())"
    by blast
  from t3 have e: "razorpayWebhook digestStandIn stringifyShallow noHandler None reqRawSigned ()
       = (\<lparr>http_status = 500, http_body = ErrorBody ''Webhook not configured''\<rparr>, ())"
    by blast
  from k a b c d e show ?thesis by blast
qed

text \<open>
  C6 (as stated) fails: a request whose header is the digest of its raw body is
  rejected with 400 when the raw text is not what \<open>JSON.stringify\<close> produces, and a
  request whose header differs from the digest of the raw body is accepted when it
  equals the digest of the re-serialised body.
\<close>

theorem raw_signed_webhook_rejected:
  \<open>signatureHeader reqRawSigned = Some (digestStandIn ''whsec'' (rawBody reqRawSigned))
   \<and> fst (razorpayWebhook digestStandIn stringifyShallow noHandler (Some ''whsec'') reqRawSigned ())
       = \<lparr>http_status = 400, http_body = ErrorBody ''Invalid signature''\<rparr>
   \<and> signatureHeader reqReserialised \<noteq> Some (digestStandIn ''whsec'' (rawBody reqReserialised))
   \<and> http_status (fst (razorpayWebhook digestStandIn stringifyShallow noHandler (Some ''whsec'')
                          reqReserialised ())) = 200\<close>
  by (simp add: razorpayWebhook_def reqRawSigned_def reqReserialised_def stringifyShallow_def
        digestStandIn_def processWebhookEvent_def noHandler_def)

text \<open>Every request whose signature verifies is answered with status 200, whatever
  the handlers do.\<close>

lemma verified_webhook_always_200:
  assumes "secret = Some k" and "k \<noteq> []"
    and "signatureHeader req = Some (hmac k (stringify (body req)))"
  shows "http_status (fst (razorpayWebhook hmac stringify handle secret req st)) = 200"
  using assms by (simp add: razorpayWebhook_def split: prod.splits option.splits)

text \<open>
  C7. The claim asks for a 4xx answer to a payload without entity.
  \<open>processWebhookEvent\<close> throws \<open>AppError('Invalid webhook payload', 400)\<close> for it,
  but the route catches every error of the handler and answers 200 with status
  \<open>acknowledged\<close>: the code at the failing input.
\<close>

theorem invalid_payload_acknowledged_with_200:
  \<open>entityOf \<lparr>pl_payment = None, pl_order = None, pl_refund = (None :: unit option option)\<rparr> = None
   \<and> signatureHeader reqNoEntity = Some (digestStandIn ''whsec'' (stringifyShallow (body reqNoEntity)))
   \<and> fst (processWebhookEvent noHandler (event (body reqNoEntity)) (payload (body reqNoEntity)) ())
       = Some (AppError ''Invalid webhook payload'' 400)
   \<and> fst (razorpayWebhook digestStandIn stringifyShallow noHandler (Some ''whsec'') reqNoEntity ())
       = \<lparr>http_status = 200,
          http_body = StatusBody ''acknowledged'' (Some ''Invalid webhook payload'')\<rparr>\<close>
  by (simp add: razorpayWebhook_def reqNoEntity_def stringifyShallow_def digestStandIn_def
        processWebhookEvent_def entityOf_def AppError_def)

subsection \<open>The expiry sweep\<close>

lemma expireOne_txs:
  "txs (expireOne now it d) =
     (txs d)[fst it := fst (addStatusUpdate now (fst it) Expired
                             (Some ''Transaction expired due to inactivity'')
                             (CallerMeta [''cleanup'', ''stale_duration'']) (snd it) d)]"
  by (simp add: expireOne_def Let_def asu_txs split: option.splits)

lemma expireOne_length_txs [simp]: "length (txs (expireOne now it d)) = length (txs d)"
  by (simp add: expireOne_txs)

lemma expireOne_length_orders [simp]: "length (orders (expireOne now it d)) = length (orders d)"
  by (simp add: expireOne_def Let_def split: option.splits)




lemma sweep_length_txs [simp]:
  "length (txs (foldl (\<lambda>acc it. expireOne now it acc) d its)) = length (txs d)"
  by (induction its arbitrary: d) simp_all

lemma sweep_length_orders [simp]:
  "length (orders (foldl (\<lambda>acc it. expireOne now it acc) d its)) = length (orders d)"
  by (induction its arbitrary: d) simp_all









subsection \<open>Refunds\<close>




subsection \<open>Reconciliation\<close>










end
